theory Spec2Isabelle
  imports Main
begin

section \<open>The expression compiler of django-reactive\<close>

text \<open>
  A shallow embedding of \<^verbatim>\<open>core/expressions.py\<close> and \<^verbatim>\<open>core/reactive_function.py\<close>.
  Python strings are \<^typ>\<open>string\<close>; the development covers ASCII text, on which
  \<^verbatim>\<open>str.isnumeric\<close> and \<^verbatim>\<open>str.isidentifier\<close> are the predicates written out below.
  A function that can raise returns \<open>error + 'a\<close>, with \<open>Inl\<close> for the exception.
\<close>

subsection \<open>The tokenizer\<close>

definition common_delimiters :: "(char \<times> char) list" where
  "common_delimiters = [(CHR ''('', CHR '')''), (CHR ''['', CHR '']''), (CHR ''{'', CHR ''}'')]"

fun match_and_return_second :: "char \<Rightarrow> (char \<times> char) list \<Rightarrow> char option" where
  "match_and_return_second c [] = None"
| "match_and_return_second c ((first, second) # pairs) =
     (if c = first then Some second else match_and_return_second c pairs)"

text \<open>Python's \<^verbatim>\<open>s[lo:hi]\<close> for \<open>0 \<le> lo\<close> and \<open>0 \<le> hi\<close>.\<close>

definition py_slice :: "'a list \<Rightarrow> nat \<Rightarrow> nat \<Rightarrow> 'a list" where
  "py_slice s lo hi = take (hi - lo) (drop lo s)"

text \<open>
  The local variables of \<^verbatim>\<open>smart_split\<close> that live across iterations: the start \<^verbatim>\<open>i\<close> of
  the current piece, the stack of expected closing characters (its last element is the
  top, as with \<^verbatim>\<open>append\<close>, \<^verbatim>\<open>pop\<close> and \<^verbatim>\<open>[-1]\<close>), and the pieces yielded so far.
\<close>

record split_state =
  split_i :: nat
  end_delimiters_stack :: "char list"
  yielded :: "string list"

text \<open>
  The code after the \<^verbatim>\<open># otherwise\<close> comment: reached by every character that neither
  split the text nor popped the stack.
\<close>

definition otherwise_push :: "char \<Rightarrow> (char \<times> char) list \<Rightarrow> split_state \<Rightarrow> split_state" where
  "otherwise_push c delimiters st =
     (case match_and_return_second c delimiters of
        Some end_delimiter \<Rightarrow>
          st\<lparr>end_delimiters_stack := end_delimiters_stack st @ [end_delimiter]\<rparr>
      | None \<Rightarrow> st)"

text \<open>One iteration of \<^verbatim>\<open>for loc, char in enumerate(expression)\<close>.\<close>

definition smart_split_body ::
  "string \<Rightarrow> char \<Rightarrow> (char \<times> char) list \<Rightarrow> nat \<Rightarrow> split_state \<Rightarrow> split_state" where
  "smart_split_body expression seperator delimiters loc st =
     (let c = expression ! loc in
      if end_delimiters_stack st = [] then
        (if c = seperator then
           st\<lparr>yielded := yielded st @ [py_slice expression (split_i st) loc],
              split_i := loc + 1\<rparr>
         else otherwise_push c delimiters st)
      else
        (if c = last (end_delimiters_stack st) then
           st\<lparr>end_delimiters_stack := butlast (end_delimiters_stack st)\<rparr>
         else otherwise_push c delimiters st))"

definition smart_split_loop ::
  "string \<Rightarrow> char \<Rightarrow> (char \<times> char) list \<Rightarrow> split_state" where
  "smart_split_loop expression seperator delimiters =
     fold (smart_split_body expression seperator delimiters) [0..<length expression]
       \<lparr>split_i = 0, end_delimiters_stack = [], yielded = []\<rparr>"

text \<open>The generator, as the list of everything it yields.\<close>

definition smart_split :: "string \<Rightarrow> char \<Rightarrow> (char \<times> char) list \<Rightarrow> string list" where
  "smart_split expression seperator delimiters =
     (let st = smart_split_loop expression seperator delimiters
      in yielded st @ [drop (split_i st) expression])"

text \<open>
  The scan as the specification words it, for comparison: while the stack is non-empty a
  position only compares its character with the top of the stack, and pushes nothing.
\<close>

definition spec_split_body ::
  "string \<Rightarrow> char \<Rightarrow> (char \<times> char) list \<Rightarrow> nat \<Rightarrow> split_state \<Rightarrow> split_state" where
  "spec_split_body expression seperator delimiters loc st =
     (let c = expression ! loc in
      if end_delimiters_stack st = [] then
        (if c = seperator then
           st\<lparr>yielded := yielded st @ [py_slice expression (split_i st) loc],
              split_i := loc + 1\<rparr>
         else otherwise_push c delimiters st)
      else
        (if c = last (end_delimiters_stack st) then
           st\<lparr>end_delimiters_stack := butlast (end_delimiters_stack st)\<rparr>
         else st))"

definition spec_split :: "string \<Rightarrow> char \<Rightarrow> (char \<times> char) list \<Rightarrow> string list" where
  "spec_split expression seperator delimiters =
     (let st = fold (spec_split_body expression seperator delimiters) [0..<length expression]
                 \<lparr>split_i = 0, end_delimiters_stack = [], yielded = []\<rparr>
      in yielded st @ [drop (split_i st) expression])"

subsection \<open>Expression nodes and errors\<close>

datatype expression =
    StringExpression string
  | IntExpression int
  | BoolExpression bool
  | NoneExpression
  | ArrayExpression "expression list"
  | DictExpression "(string \<times> expression) list"
  | VariableExpression string
  | PropertyExpression expression "string list"
  | SettablePropertyExpression expression "string list"

text \<open>
  The message of a \<^verbatim>\<open>TemplateSyntaxError\<close>, by the place that raises it, with the values
  its text is formatted from.
\<close>

datatype message =
    Cant_parse_expression string
  | Cant_find_key_value_seperator
  | No_reactive_variable_named string
  | Error_while_parsing_expression expression
  | Length_exactly_one_argument "expression list"

datatype error =
    TemplateSyntaxError message
  | Exception string
  | UnboundLocalError
  | IndexError
  | KeyError
  | TypeError
  | AttributeError

text \<open>\<^verbatim>\<open>isinstance(e, SettableExpression)\<close>.\<close>

fun is_SettableExpression :: "expression \<Rightarrow> bool" where
  "is_SettableExpression (VariableExpression var_name) = True"
| "is_SettableExpression (SettablePropertyExpression root_expression key_path) = True"
| "is_SettableExpression e = False"

subsection \<open>Parsing the leaves\<close>

text \<open>Both alternatives of the source's quote test are the single quote, \<open>CHR 0x27\<close>.\<close>

definition StringExpression_try_parse :: "string \<Rightarrow> expression option" where
  "StringExpression_try_parse expression =
     (if length expression \<ge> 2 \<and> hd expression = last expression
         \<and> (hd expression = CHR 0x27 \<or> hd expression = CHR 0x27)
      then Some (StringExpression (butlast (tl expression)))
      else None)"

definition isnumeric :: "string \<Rightarrow> bool" where
  "isnumeric s = (s \<noteq> [] \<and> list_all (\<lambda>c. c \<in> set ''0123456789'') s)"

text \<open>\<^verbatim>\<open>int(s)\<close> on a string of decimal digits.\<close>

definition py_int :: "string \<Rightarrow> int" where
  "py_int s = foldl (\<lambda>acc c. 10 * acc + (int (of_char c) - 48)) 0 s"

definition IntExpression_try_parse :: "string \<Rightarrow> expression option" where
  "IntExpression_try_parse expression =
     (if isnumeric expression then Some (IntExpression (py_int expression)) else None)"

definition BoolExpression_try_parse :: "string \<Rightarrow> expression option" where
  "BoolExpression_try_parse expression =
     (if expression = ''True'' \<or> expression = ''true'' then Some (BoolExpression True)
      else if expression = ''False'' \<or> expression = ''false'' then Some (BoolExpression False)
      else None)"

definition NoneExpression_try_parse :: "string \<Rightarrow> expression option" where
  "NoneExpression_try_parse expression =
     (if expression = ''None'' \<or> expression = ''null'' then Some NoneExpression else None)"

definition identifier_start :: "char list" where
  "identifier_start = ''abcdefghijklmnopqrstuvwxyzABCDEFGHIJKLMNOPQRSTUVWXYZ_''"

definition isidentifier :: "string \<Rightarrow> bool" where
  "isidentifier s =
     (case s of
        [] \<Rightarrow> False
      | c # cs \<Rightarrow> c \<in> set identifier_start
          \<and> list_all (\<lambda>d. d \<in> set (identifier_start @ ''0123456789'')) cs)"

definition VariableExpression_try_parse :: "string \<Rightarrow> expression option" where
  "VariableExpression_try_parse expression =
     (if isidentifier expression then Some (VariableExpression expression) else None)"

subsection \<open>Trimming\<close>

definition whitespaces :: "char list" where
  "whitespaces = [CHR '' '', CHR 0x09, CHR 0x0A]"

text \<open>
  \<^verbatim>\<open>for i in range(len(s))\<close>, entered at \<open>i < len(s)\<close>: the value of \<^verbatim>\<open>i\<close> when the loop
  is left, by \<^verbatim>\<open>break\<close> or at the last index.
\<close>

function first_loop :: "string \<Rightarrow> nat \<Rightarrow> nat" where
  "first_loop s i =
     (if s ! i \<notin> set whitespaces then i
      else if Suc i < length s then first_loop s (Suc i)
      else i)"
  by pat_completeness auto
termination
  by (relation "measure (\<lambda>(s, i). length s - i)") auto

declare first_loop.simps [simp del]

text \<open>\<^verbatim>\<open>for j in reversed(range(i, len(s)))\<close>, entered at \<open>j = len(s) - 1\<close>.\<close>

function second_loop :: "string \<Rightarrow> nat \<Rightarrow> nat \<Rightarrow> nat" where
  "second_loop s i j =
     (if s ! j \<notin> set whitespaces then j
      else if i < j then second_loop s i (j - 1)
      else j)"
  by pat_completeness auto
termination
  by (relation "measure (\<lambda>(s, i, j). j)") auto

declare second_loop.simps [simp del]

text \<open>
  On the empty string the first loop body never runs, \<^verbatim>\<open>i\<close> stays unbound and
  \<^verbatim>\<open>range(i, len(s))\<close> raises \<^verbatim>\<open>UnboundLocalError\<close>.
\<close>

definition remove_whitespaces_on_boundaries :: "string \<Rightarrow> error + string" where
  "remove_whitespaces_on_boundaries s =
     (if length s = 0 then Inl UnboundLocalError
      else let i = first_loop s 0;
               j = second_loop s i (length s - 1)
           in Inr (py_slice s i (j + 1)))"

subsection \<open>The parser\<close>

text \<open>
  A comprehension over calls that can raise: the results in order, or the first exception.
\<close>

fun collect :: "(error + 'a) list \<Rightarrow> error + 'a list" where
  "collect [] = Inr []"
| "collect (Inl e # rs) = Inl e"
| "collect (Inr x # rs) = (case collect rs of Inl e \<Rightarrow> Inl e | Inr xs \<Rightarrow> Inr (x # xs))"

text \<open>
  A Python \<^verbatim>\<open>dict\<close> as an association list in insertion order: storing under a key that is
  present replaces the value in place.
\<close>

fun dict_set :: "'k \<Rightarrow> 'v \<Rightarrow> ('k \<times> 'v) list \<Rightarrow> ('k \<times> 'v) list" where
  "dict_set k v [] = [(k, v)]"
| "dict_set k v ((k', v') # d) = (if k' = k then (k, v) # d else (k', v') # dict_set k v d)"

definition dict :: "('k \<times> 'v) list \<Rightarrow> ('k \<times> 'v) list" where
  "dict pairs = foldl (\<lambda>d (k, v). dict_set k v d) [] pairs"

text \<open>\<^verbatim>\<open>s.find(c)\<close>, with \<open>None\<close> for \<open>-1\<close>.\<close>

definition find_char :: "char \<Rightarrow> string \<Rightarrow> nat option" where
  "find_char c s = (if c \<in> set s then Some (length (takeWhile (\<lambda>d. d \<noteq> c) s)) else None)"

lemma fold_invariant:
  assumes "P s" and "\<And>x t. x \<in> set xs \<Longrightarrow> P t \<Longrightarrow> P (f x t)"
  shows "P (fold f xs s)"
  using assms by (induction xs arbitrary: s) auto

lemma otherwise_push_fields [simp]:
  "yielded (otherwise_push c ds st) = yielded st"
  "split_i (otherwise_push c ds st) = split_i st"
  by (simp_all add: otherwise_push_def split: option.splits)

lemma py_slice_length: "length (py_slice s lo hi) \<le> length s"
  by (simp add: py_slice_def)

lemma smart_split_body_pieces:
  assumes "\<forall>p \<in> set (yielded st). length p \<le> length e"
  shows "\<forall>p \<in> set (yielded (smart_split_body e sep ds loc st)). length p \<le> length e"
  using assms by (auto simp: smart_split_body_def Let_def py_slice_length)

lemma smart_split_piece_length:
  assumes "x \<in> set (smart_split e sep ds)"
  shows "length x \<le> length e"
proof -
  let ?st = "smart_split_loop e sep ds"
  have "\<forall>p \<in> set (yielded ?st). length p \<le> length e"
    unfolding smart_split_loop_def
    by (rule fold_invariant) (simp, rule smart_split_body_pieces)
  with assms show ?thesis
    by (auto simp: smart_split_def Let_def)
qed

text \<open>Until something is yielded the piece starts at 0; the first piece yielded is short.\<close>

definition first_piece_short :: "string \<Rightarrow> split_state \<Rightarrow> bool" where
  "first_piece_short e st =
     (if yielded st = [] then split_i st = 0 else length (hd (yielded st)) < length e)"

lemma smart_split_body_first_piece:
  assumes "first_piece_short e st" and "loc < length e"
  shows "first_piece_short e (smart_split_body e sep ds loc st)"
proof (cases "yielded st")
  case Nil
  with assms show ?thesis
    by (auto simp: smart_split_body_def first_piece_short_def Let_def py_slice_def)
next
  case (Cons p ps)
  with assms show ?thesis
    by (auto simp: smart_split_body_def first_piece_short_def Let_def)
qed

lemma smart_split_hd_length:
  assumes "\<not> length (smart_split e sep ds) \<le> 1"
  shows "length (hd (smart_split e sep ds)) < length e"
proof -
  let ?st = "smart_split_loop e sep ds"
  have "first_piece_short e ?st"
    unfolding smart_split_loop_def
  proof (rule fold_invariant)
    show "first_piece_short e \<lparr>split_i = 0, end_delimiters_stack = [], yielded = []\<rparr>"
      by (simp add: first_piece_short_def)
  next
    fix x t
    assume "x \<in> set [0..<length e]" and "first_piece_short e t"
    then show "first_piece_short e (smart_split_body e sep ds x t)"
      by (simp add: smart_split_body_first_piece)
  qed
  moreover from assms have "yielded ?st \<noteq> []"
    by (auto simp: smart_split_def Let_def)
  ultimately show ?thesis
    by (simp add: smart_split_def Let_def first_piece_short_def)
qed

lemma remove_whitespaces_length:
  assumes "remove_whitespaces_on_boundaries s = Inr b"
  shows "length b \<le> length s"
  using assms
  by (auto simp: remove_whitespaces_on_boundaries_def Let_def py_slice_length split: if_splits)

lemma takeWhile_stops:
  assumes "c \<in> set s"
  shows "length (takeWhile (\<lambda>d. d \<noteq> c) s) < length s"
  using assms by (induction s) auto

lemma find_char_less:
  assumes "find_char c s = Some n"
  shows "n < length s"
  using assms by (auto simp: find_char_def takeWhile_stops split: if_splits)

text \<open>
  \<^verbatim>\<open>parse_expression\<close> and the \<^verbatim>\<open>try_parse\<close> methods that call it back. A \<^verbatim>\<open>try_parse\<close>
  returns \<open>Inr None\<close> for Python's \<^verbatim>\<open>None\<close> (no match). \<^verbatim>\<open>split_part\<close> is the
  function local to \<^verbatim>\<open>DictExpression.try_parse\<close>, whose bare \<^verbatim>\<open>except\<close> turns every
  exception into \<^verbatim>\<open>None\<close>. \<^verbatim>\<open>parse_expression\<close> returns a node or raises on every path, so
  the test \<^verbatim>\<open>root_expression is None\<close> of \<^verbatim>\<open>PropertyExpression.try_parse\<close> is never true
  and has no branch here.
\<close>

function parse_expression :: "string \<Rightarrow> error + expression"
  and ArrayExpression_try_parse :: "string \<Rightarrow> error + expression option"
  and DictExpression_try_parse :: "string \<Rightarrow> error + expression option"
  and split_part :: "string \<Rightarrow> error + (string \<times> expression)"
  and PropertyExpression_try_parse :: "string \<Rightarrow> error + expression option"
where
  "parse_expression text =
     (case remove_whitespaces_on_boundaries text of
        Inl e \<Rightarrow> Inl e
      | Inr expression \<Rightarrow>
          if expression = [] then Inl IndexError
          else if hd expression = CHR ''('' \<and> last expression = CHR '')''
          then parse_expression (butlast (tl expression))
          else (case StringExpression_try_parse expression of Some exp \<Rightarrow> Inr exp | None \<Rightarrow>
               (case BoolExpression_try_parse expression of Some exp \<Rightarrow> Inr exp | None \<Rightarrow>
               (case IntExpression_try_parse expression of Some exp \<Rightarrow> Inr exp | None \<Rightarrow>
               (case NoneExpression_try_parse expression of Some exp \<Rightarrow> Inr exp | None \<Rightarrow>
               (case ArrayExpression_try_parse expression of
                  Inl e \<Rightarrow> Inl e | Inr (Some exp) \<Rightarrow> Inr exp | Inr None \<Rightarrow>
               (case DictExpression_try_parse expression of
                  Inl e \<Rightarrow> Inl e | Inr (Some exp) \<Rightarrow> Inr exp | Inr None \<Rightarrow>
               (case VariableExpression_try_parse expression of Some exp \<Rightarrow> Inr exp | None \<Rightarrow>
               (case PropertyExpression_try_parse expression of
                  Inl e \<Rightarrow> Inl e | Inr (Some exp) \<Rightarrow> Inr exp
                | Inr None \<Rightarrow> Inl (TemplateSyntaxError (Cant_parse_expression expression)))))))))))"
| "ArrayExpression_try_parse expression =
     (if \<not> (length expression \<ge> 2 \<and> hd expression = CHR ''['' \<and> last expression = CHR '']'')
      then Inr None
      else (case collect (map parse_expression
                (smart_split (butlast (tl expression)) CHR '','' common_delimiters)) of
              Inl e \<Rightarrow> Inl e
            | Inr elements \<Rightarrow> Inr (Some (ArrayExpression elements))))"
| "DictExpression_try_parse expression =
     (if \<not> (length expression \<ge> 2 \<and> hd expression = CHR ''{'' \<and> last expression = CHR ''}'')
      then Inr None
      else (case collect (map split_part
                (smart_split (butlast (tl expression)) CHR '','' common_delimiters)) of
              Inl e \<Rightarrow> Inr None
            | Inr pairs \<Rightarrow> Inr (Some (DictExpression (dict pairs)))))"
| "split_part part =
     (case find_char CHR '':'' part of
        None \<Rightarrow> Inl (TemplateSyntaxError Cant_find_key_value_seperator)
      | Some seperator \<Rightarrow>
          (let key = take seperator part;
               val_str = drop (seperator + 1) part;
               key = (case StringExpression_try_parse key of
                        Some (StringExpression val) \<Rightarrow> val | _ \<Rightarrow> key)
           in case parse_expression val_str of
                Inl e \<Rightarrow> Inl e
              | Inr val \<Rightarrow> Inr (key, val)))"
| "PropertyExpression_try_parse expression =
     (let parts = smart_split expression CHR ''.'' common_delimiters in
      if length parts \<le> 1 then Inr None
      else (case parse_expression (hd parts) of
              Inl e \<Rightarrow> Inl e
            | Inr root_expression \<Rightarrow>
                (let key_path = tl parts in
                 if \<not> list_all isidentifier key_path then Inr None
                 else if is_SettableExpression root_expression
                 then Inr (Some (SettablePropertyExpression root_expression key_path))
                 else Inr (Some (PropertyExpression root_expression key_path)))))"
  by pat_completeness auto
termination
proof (relation "measure (\<lambda>x. case x of
      Inl (Inl s) \<Rightarrow> 2 * length s + 1
    | Inl (Inr s) \<Rightarrow> 2 * length s
    | Inr (Inl s) \<Rightarrow> 2 * length s
    | Inr (Inr (Inl s)) \<Rightarrow> 2 * length s + 1
    | Inr (Inr (Inr s)) \<Rightarrow> 2 * length s)", goal_cases)
  case 1
  show ?case by simp
next
  case (2 t b)
  from 2(1) have "length b \<le> length t" by (rule remove_whitespaces_length)
  moreover from 2(2) obtain c cs where "b = c # cs" by (cases b) auto
  ultimately show ?case by simp
next
  case (3 t b)
  from 3(1) have "length b \<le> length t" by (rule remove_whitespaces_length)
  then show ?case by simp
next
  case (4 t b ba)
  from 4(1) have "length b \<le> length t" by (rule remove_whitespaces_length)
  then show ?case by simp
next
  case (5 t b ba baa)
  from 5(1) have "length b \<le> length t" by (rule remove_whitespaces_length)
  then show ?case by simp
next
  case (6 expression x)
  from 6(2) have "length x \<le> length (butlast (tl expression))"
    by (rule smart_split_piece_length)
  moreover from 6(1) have "2 \<le> length expression" by simp
  ultimately show ?case by simp
next
  case (7 expression x)
  from 7(2) have "length x \<le> length (butlast (tl expression))"
    by (rule smart_split_piece_length)
  moreover from 7(1) have "2 \<le> length expression" by simp
  ultimately show ?case by simp
next
  case (8 part x2 x xa xb)
  from 8(1) have "x2 < length part" by (rule find_char_less)
  then have "length (drop (x2 + 1) part) < length part" by simp
  with 8(3) show ?case by simp
next
  case (9 expression x)
  from 9(2) have "length (hd x) < length expression"
    unfolding 9(1) by (rule smart_split_hd_length)
  then show ?case by simp
qed

declare parse_expression.simps [simp del] ArrayExpression_try_parse.simps [simp del]
  DictExpression_try_parse.simps [simp del] split_part.simps [simp del]
  PropertyExpression_try_parse.simps [simp del]

subsection \<open>Values and the reactive context\<close>

text \<open>What \<^verbatim>\<open>eval_initial\<close> can return (\<^verbatim>\<open>ReactValType\<close>).\<close>

datatype pyval =
    VStr string
  | VInt int
  | VBool bool
  | VNone
  | VList "pyval list"
  | VDict "(string \<times> pyval) list"

text \<open>
  Modelled from the spec: \<^verbatim>\<open>ReactVar\<close> and \<^verbatim>\<open>ReactContext\<close> of \<^verbatim>\<open>core/base.py\<close>, which is
  not among the sources. A reactive variable wraps its own expression and exposes
  \<^verbatim>\<open>js_get()\<close>, \<^verbatim>\<open>js_set(code)\<close> and \<^verbatim>\<open>js_notify()\<close>; a context maps a name to an optional
  variable (\<^verbatim>\<open>search_var\<close>). The variable itself is the hook.
\<close>

record react_var =
  var_expression :: expression
  var_js_get :: string
  var_js_set :: "string \<Rightarrow> string"
  var_js_notify :: string

type_synonym react_context = "string \<Rightarrow> react_var option"

text \<open>
  Modelled from the spec: \<^verbatim>\<open>value_to_expression\<close> of \<^verbatim>\<open>core/base.py\<close>, which is not among
  the sources: "given an arbitrary host value, produce an equivalent literal Expression
  node".
\<close>

fun value_to_expression :: "pyval \<Rightarrow> expression" where
  "value_to_expression (VStr s) = StringExpression s"
| "value_to_expression (VInt n) = IntExpression n"
| "value_to_expression (VBool b) = BoolExpression b"
| "value_to_expression VNone = NoneExpression"
| "value_to_expression (VList vs) = ArrayExpression (map value_to_expression vs)"
| "value_to_expression (VDict kvs) =
     DictExpression (map (\<lambda>(k, v). (k, value_to_expression v)) kvs)"

text \<open>\<^verbatim>\<open>sep.join(xs)\<close> and \<^verbatim>\<open>str(n)\<close>.\<close>

fun join :: "string \<Rightarrow> string list \<Rightarrow> string" where
  "join sep [] = []"
| "join sep [x] = x"
| "join sep (x # y # ys) = x @ sep @ join sep (y # ys)"

function str_nat :: "nat \<Rightarrow> string" where
  "str_nat n =
     (if n < 10 then [char_of (48 + n)] else str_nat (n div 10) @ [char_of (48 + n mod 10)])"
  by pat_completeness auto
termination
  by (relation "measure id") auto

declare str_nat.simps [simp del]

definition str_int :: "int \<Rightarrow> string" where
  "str_int k = (if k < 0 then CHR ''-'' # str_nat (nat (- k)) else str_nat (nat k))"

text \<open>\<^verbatim>\<open>VariableExpression.var\<close>.\<close>

definition var :: "react_context option \<Rightarrow> string \<Rightarrow> error + react_var option" where
  "var react_context var_name =
     (case react_context of
        None \<Rightarrow> Inl (Exception ''Can't evaluate a VariableExpression if react_context=None'')
      | Some c \<Rightarrow> Inr (c var_name))"

text \<open>
  The weight that decreases along the calls of \<^verbatim>\<open>eval_js_and_hooks\<close>: twice the size of the
  node, plus one for a variable, which may call the method of a literal.
\<close>

definition variable_weight :: "expression \<Rightarrow> nat" where
  "variable_weight e = 2 * size e + (case e of VariableExpression x \<Rightarrow> 1 | _ \<Rightarrow> 0)"

lemma variable_weight_le: "variable_weight e \<le> 2 * size e + 1"
  by (cases e) (simp_all add: variable_weight_def)

lemma variable_weight_ge: "2 * size e \<le> variable_weight e"
  by (simp add: variable_weight_def)

lemma array_element_size:
  assumes "x \<in> set es"
  shows "size x \<le> size_list size es"
  using assms by (induction es) auto

lemma dict_value_size:
  assumes "(k, x) \<in> set kvs"
  shows "size x \<le> size_list (size_prod (\<lambda>_. 0) size) kvs"
  using assms by (induction kvs) auto

text \<open>
  \<^verbatim>\<open>eval_js_and_hooks\<close> of every node class. \<^verbatim>\<open>SettablePropertyExpression\<close> inherits the
  method of \<^verbatim>\<open>PropertyExpression\<close>.
\<close>

function eval_js_and_hooks ::
  "react_context option \<Rightarrow> expression \<Rightarrow> error + string \<times> react_var list" where
  "eval_js_and_hooks react_context (StringExpression val) = Inr ([CHR 0x27] @ val @ [CHR 0x27], [])"
| "eval_js_and_hooks react_context (IntExpression val) = Inr (str_int val, [])"
| "eval_js_and_hooks react_context (BoolExpression val) =
     Inr (if val then ''true'' else ''false'', [])"
| "eval_js_and_hooks react_context NoneExpression = Inr (''null'', [])"
| "eval_js_and_hooks react_context (ArrayExpression elements_expression) =
     (case collect (map (eval_js_and_hooks react_context) elements_expression) of
        Inl e \<Rightarrow> Inl e
      | Inr results \<Rightarrow>
          Inr (''['' @ join '','' (map fst results) @ '']'', concat (map snd results)))"
| "eval_js_and_hooks react_context (DictExpression dict_expression) =
     (case collect (map (\<lambda>(key, expression).
              case eval_js_and_hooks react_context expression of
                Inl e \<Rightarrow> Inl e
              | Inr (js_expression, hooks) \<Rightarrow> Inr ((key, js_expression), hooks))
            dict_expression) of
        Inl e \<Rightarrow> Inl e
      | Inr results \<Rightarrow>
          Inr (''{'' @ join '','' (map (\<lambda>((key, js_expression), hooks). key @ '':'' @ js_expression)
                    results) @ ''}'',
               concat (map snd results)))"
| "eval_js_and_hooks react_context (VariableExpression var_name) =
     (case var react_context var_name of
        Inl e \<Rightarrow> Inl e
      | Inr (Some v) \<Rightarrow> Inr (var_js_get v, [v])
      | Inr None \<Rightarrow> eval_js_and_hooks react_context (value_to_expression (VStr '''')))"
| "eval_js_and_hooks react_context (PropertyExpression root_expression key_path) =
     (case eval_js_and_hooks react_context root_expression of
        Inl e \<Rightarrow> Inl e
      | Inr (root_var_js, hooks) \<Rightarrow>
          Inr (''('' @ root_var_js @ '').'' @ join ''.'' key_path, hooks))"
| "eval_js_and_hooks react_context (SettablePropertyExpression root_expression key_path) =
     (case eval_js_and_hooks react_context root_expression of
        Inl e \<Rightarrow> Inl e
      | Inr (root_var_js, hooks) \<Rightarrow>
          Inr (''('' @ root_var_js @ '').'' @ join ''.'' key_path, hooks))"
  by pat_completeness auto
termination
proof (relation "measure (\<lambda>(c, e). variable_weight e)", goal_cases)
  case 1
  show ?case by simp
next
  case (2 c es x)
  from 2 have "size x \<le> size_list size es" by (rule array_element_size)
  moreover have "variable_weight x \<le> 2 * size x + 1" by (rule variable_weight_le)
  moreover have "2 * size (ArrayExpression es) \<le> variable_weight (ArrayExpression es)"
    by (rule variable_weight_ge)
  ultimately show ?case by simp
next
  case (3 c kvs p k x)
  then have "(k, x) \<in> set kvs" by simp
  then have "size x \<le> size_list (size_prod (\<lambda>_. 0) size) kvs" by (rule dict_value_size)
  moreover have "variable_weight x \<le> 2 * size x + 1" by (rule variable_weight_le)
  moreover have "2 * size (DictExpression kvs) \<le> variable_weight (DictExpression kvs)"
    by (rule variable_weight_ge)
  ultimately show ?case by simp
next
  case (4 c n)
  show ?case by (simp add: variable_weight_def)
next
  case (5 c r ks)
  have "variable_weight r \<le> 2 * size r + 1" by (rule variable_weight_le)
  moreover have "2 * size (PropertyExpression r ks) \<le> variable_weight (PropertyExpression r ks)"
    by (rule variable_weight_ge)
  ultimately show ?case by simp
next
  case (6 c r ks)
  have "variable_weight r \<le> 2 * size r + 1" by (rule variable_weight_le)
  moreover have "2 * size (SettablePropertyExpression r ks)
      \<le> variable_weight (SettablePropertyExpression r ks)"
    by (rule variable_weight_ge)
  ultimately show ?case by simp
qed

subsection \<open>Initial values\<close>

text \<open>
  \<^verbatim>\<open>key in current\<close> and \<^verbatim>\<open>current[key]\<close> for a string \<^verbatim>\<open>key\<close>, by the type of
  \<^verbatim>\<open>current\<close>: membership among the keys of a dict, among the elements of a list, as a
  substring of a string, and \<^verbatim>\<open>TypeError\<close> on a value that is no container; only a dict
  can be indexed by a string.
\<close>

definition is_substring :: "string \<Rightarrow> string \<Rightarrow> bool" where
  "is_substring key s = list_ex (\<lambda>i. take (length key) (drop i s) = key) [0..<Suc (length s)]"

fun py_contains :: "string \<Rightarrow> pyval \<Rightarrow> error + bool" where
  "py_contains key (VDict d) = Inr (key \<in> set (map fst d))"
| "py_contains key (VList l) = Inr (VStr key \<in> set l)"
| "py_contains key (VStr s) = Inr (is_substring key s)"
| "py_contains key v = Inl TypeError"

fun py_getitem :: "pyval \<Rightarrow> string \<Rightarrow> error + pyval" where
  "py_getitem (VDict d) key = (case map_of d key of Some v \<Rightarrow> Inr v | None \<Rightarrow> Inl KeyError)"
| "py_getitem v key = Inl TypeError"

text \<open>
  The loop \<^verbatim>\<open>for key in self.key_path\<close> of \<^verbatim>\<open>PropertyExpression.eval_initial\<close>: the value
  of \<^verbatim>\<open>current\<close> when the loop ends, or the exception that leaves it.
\<close>

fun key_path_loop :: "expression \<Rightarrow> pyval \<Rightarrow> string list \<Rightarrow> error + pyval" where
  "key_path_loop self current [] = Inr current"
| "key_path_loop self current (key # keys) =
     (case py_contains key current of
        Inl e \<Rightarrow> Inl e
      | Inr True \<Rightarrow>
          (case py_getitem current key of
             Inl e \<Rightarrow> Inl e
           | Inr v \<Rightarrow> key_path_loop self v keys)
      | Inr False \<Rightarrow> Inl (TemplateSyntaxError (Error_while_parsing_expression self)))"

text \<open>
  A comprehension over calls that can raise or not return: \<open>None\<close> when a call does not
  return before any has raised.
\<close>

fun collect_returned :: "(error + 'a) option list \<Rightarrow> (error + 'a list) option" where
  "collect_returned [] = Some (Inr [])"
| "collect_returned (None # rs) = None"
| "collect_returned (Some (Inl e) # rs) = Some (Inl e)"
| "collect_returned (Some (Inr x) # rs) =
     (case collect_returned rs of
        None \<Rightarrow> None
      | Some (Inl e) \<Rightarrow> Some (Inl e)
      | Some (Inr xs) \<Rightarrow> Some (Inr (x # xs)))"

text \<open>
  \<^verbatim>\<open>eval_initial\<close> of every node class. A variable that resolves hands over to the
  expression of its reactive variable, which the context decides, so the recursion need
  not end: \<open>fuel\<close> bounds the number of such steps along a path, and \<open>None\<close> is the
  result when it runs out. The success path of \<^verbatim>\<open>PropertyExpression.eval_initial\<close> has no
  \<^verbatim>\<open>return\<close> statement, so the method returns \<^verbatim>\<open>None\<close> there.
\<close>

function eval_initial ::
  "nat \<Rightarrow> react_context option \<Rightarrow> expression \<Rightarrow> (error + pyval) option" where
  "eval_initial fuel react_context (StringExpression val) = Some (Inr (VStr val))"
| "eval_initial fuel react_context (IntExpression val) = Some (Inr (VInt val))"
| "eval_initial fuel react_context (BoolExpression val) = Some (Inr (VBool val))"
| "eval_initial fuel react_context NoneExpression = Some (Inr VNone)"
| "eval_initial fuel react_context (ArrayExpression elements_expression) =
     (case collect_returned (map (eval_initial fuel react_context) elements_expression) of
        None \<Rightarrow> None
      | Some (Inl e) \<Rightarrow> Some (Inl e)
      | Some (Inr vs) \<Rightarrow> Some (Inr (VList vs)))"
| "eval_initial fuel react_context (DictExpression dict_expression) =
     (case collect_returned (map (\<lambda>(key, expression).
              case eval_initial fuel react_context expression of
                None \<Rightarrow> None
              | Some (Inl e) \<Rightarrow> Some (Inl e)
              | Some (Inr v) \<Rightarrow> Some (Inr (key, v)))
            dict_expression) of
        None \<Rightarrow> None
      | Some (Inl e) \<Rightarrow> Some (Inl e)
      | Some (Inr kvs) \<Rightarrow> Some (Inr (VDict kvs)))"
| "eval_initial fuel react_context (VariableExpression var_name) =
     (case var react_context var_name of
        Inl e \<Rightarrow> Some (Inl e)
      | Inr (Some v) \<Rightarrow>
          (case fuel of
             0 \<Rightarrow> None
           | Suc fuel' \<Rightarrow> eval_initial fuel' react_context (var_expression v))
      | Inr None \<Rightarrow> Some (Inr (VStr '''')))"
| "eval_initial fuel react_context (PropertyExpression root_expression key_path) =
     (case eval_initial fuel react_context root_expression of
        None \<Rightarrow> None
      | Some (Inl e) \<Rightarrow> Some (Inl e)
      | Some (Inr root_val) \<Rightarrow>
          (case key_path_loop (PropertyExpression root_expression key_path) root_val key_path of
             Inl e \<Rightarrow> Some (Inl e)
           | Inr current \<Rightarrow> Some (Inr VNone)))"
| "eval_initial fuel react_context (SettablePropertyExpression root_expression key_path) =
     (case eval_initial fuel react_context root_expression of
        None \<Rightarrow> None
      | Some (Inl e) \<Rightarrow> Some (Inl e)
      | Some (Inr root_val) \<Rightarrow>
          (case key_path_loop (SettablePropertyExpression root_expression key_path) root_val
                  key_path of
             Inl e \<Rightarrow> Some (Inl e)
           | Inr current \<Rightarrow> Some (Inr VNone)))"
  by pat_completeness auto
termination
proof (relation "inv_image (less_than <*lex*> less_than) (\<lambda>(fuel, c, e). (fuel, size e))",
    goal_cases)
  case 1
  show ?case by (intro wf_inv_image wf_lex_prod wf_less_than)
next
  case (2 fuel c es x)
  from 2 have "size x \<le> size_list size es" by (rule array_element_size)
  then show ?case by simp
next
  case (3 fuel c kvs p k x)
  then have "(k, x) \<in> set kvs" by simp
  then have "size x \<le> size_list (size_prod (\<lambda>_. 0) size) kvs" by (rule dict_value_size)
  then show ?case by simp
next
  case (4 fuel c n v fuel')
  then show ?case by simp
next
  case (5 fuel c r ks)
  show ?case by simp
next
  case (6 fuel c r ks)
  show ?case by simp
qed

subsection \<open>Settable expressions\<close>

text \<open>
  \<^verbatim>\<open>js_notify\<close> and \<^verbatim>\<open>js_set\<close>: methods of \<^verbatim>\<open>VariableExpression\<close> and
  \<^verbatim>\<open>SettablePropertyExpression\<close> only; on any other node the attribute lookup fails.
\<close>

fun js_notify :: "react_context option \<Rightarrow> expression \<Rightarrow> error + string" where
  "js_notify react_context (VariableExpression var_name) =
     (case var react_context var_name of
        Inl e \<Rightarrow> Inl e
      | Inr None \<Rightarrow> Inl (TemplateSyntaxError (No_reactive_variable_named var_name))
      | Inr (Some v) \<Rightarrow> Inr (var_js_notify v))"
| "js_notify react_context (SettablePropertyExpression root_expression key_path) =
     js_notify react_context root_expression"
| "js_notify react_context e = Inl AttributeError"

fun js_set :: "react_context option \<Rightarrow> expression \<Rightarrow> string \<Rightarrow> error + string" where
  "js_set react_context (VariableExpression var_name) js_expression =
     (case var react_context var_name of
        Inl e \<Rightarrow> Inl e
      | Inr None \<Rightarrow> Inl (TemplateSyntaxError (No_reactive_variable_named var_name))
      | Inr (Some v) \<Rightarrow> Inr (var_js_set v js_expression))"
| "js_set react_context (SettablePropertyExpression root_expression key_path) js_expression =
     (case eval_js_and_hooks react_context
             (SettablePropertyExpression root_expression key_path) of
        Inl e \<Rightarrow> Inl e
      | Inr (js_path_expression, hooks) \<Rightarrow>
          (case js_notify react_context (SettablePropertyExpression root_expression key_path) of
             Inl e \<Rightarrow> Inl e
           | Inr notify \<Rightarrow> Inr (js_path_expression @ '' = '' @ js_expression @ ''; '' @ notify)))"
| "js_set react_context e js_expression = Inl AttributeError"

subsection \<open>The length function\<close>

definition LengthFunction_validate_args :: "expression list \<Rightarrow> error + unit" where
  "LengthFunction_validate_args args =
     (if length args \<noteq> 1 then Inl (TemplateSyntaxError (Length_exactly_one_argument args))
      else Inr ())"

text \<open>\<^verbatim>\<open>len(v)\<close>.\<close>

fun py_len :: "pyval \<Rightarrow> error + pyval" where
  "py_len (VStr s) = Inr (VInt (int (length s)))"
| "py_len (VList l) = Inr (VInt (int (length l)))"
| "py_len (VDict d) = Inr (VInt (int (length d)))"
| "py_len v = Inl TypeError"

definition LengthFunction_eval_initial ::
  "nat \<Rightarrow> react_context option \<Rightarrow> expression list \<Rightarrow> (error + pyval) option" where
  "LengthFunction_eval_initial fuel reactive_context args =
     (case LengthFunction_validate_args args of
        Inl e \<Rightarrow> Some (Inl e)
      | Inr u \<Rightarrow>
          (let array = hd args in
           case eval_initial fuel reactive_context array of
             None \<Rightarrow> None
           | Some (Inl e) \<Rightarrow> Some (Inl e)
           | Some (Inr v) \<Rightarrow> Some (py_len v)))"

text \<open>
  A call \<^verbatim>\<open>e.eval_js_and_hooks(react_context, *extra)\<close>: every \<^verbatim>\<open>eval_js_and_hooks\<close> of
  \<^verbatim>\<open>expressions.py\<close> declares the one parameter \<^verbatim>\<open>react_context\<close> after \<^verbatim>\<open>self\<close>, and
  Python raises \<^verbatim>\<open>TypeError\<close> on a call with more positional arguments, before the body
  runs.
\<close>

definition call_eval_js_and_hooks ::
  "expression \<Rightarrow> react_context option \<Rightarrow> string list \<Rightarrow> error + string \<times> react_var list" where
  "call_eval_js_and_hooks e react_context extra =
     (if extra = [] then eval_js_and_hooks react_context e else Inl TypeError)"

definition LengthFunction_eval_js ::
  "react_context option \<Rightarrow> string \<Rightarrow> expression list \<Rightarrow> error + string" where
  "LengthFunction_eval_js reactive_context delimiter args =
     (case LengthFunction_validate_args args of
        Inl e \<Rightarrow> Inl e
      | Inr u \<Rightarrow>
          (let array = hd args in
           case call_eval_js_and_hooks array reactive_context [delimiter] of
             Inl e \<Rightarrow> Inl e
           | Inr r \<Rightarrow> Inr (''('' @ fst r @ '').length'')))"

section \<open>The claims\<close>

subsection \<open>Facts about trimming\<close>

text \<open>A trimmed text is never empty: both loops stay inside the string.\<close>

lemma first_loop_less:
  assumes "i < length s"
  shows "first_loop s i < length s"
  using assms
proof (induction s i rule: first_loop.induct)
  case (1 s i)
  then show ?case by (subst first_loop.simps) simp
qed

lemma second_loop_bounds:
  assumes "i \<le> j"
  shows "i \<le> second_loop s i j \<and> second_loop s i j \<le> j"
  using assms
proof (induction s i j rule: second_loop.induct)
  case (1 s i j)
  show ?case
  proof (cases "s ! j \<notin> set whitespaces \<or> \<not> i < j")
    case True
    with "1.prems" show ?thesis by (subst (1 2) second_loop.simps) auto
  next
    case False
    then have "i \<le> j - 1" by auto
    with False "1.IH" have "i \<le> second_loop s i (j - 1) \<and> second_loop s i (j - 1) \<le> j - 1"
      by simp
    with False show ?thesis by (subst (1 2) second_loop.simps) auto
  qed
qed

lemma remove_whitespaces_nonempty:
  assumes "remove_whitespaces_on_boundaries s = Inr b"
  shows "b \<noteq> []"
proof -
  from assms have s: "s \<noteq> []"
    by (auto simp: remove_whitespaces_on_boundaries_def)
  define i where "i = first_loop s 0"
  define j where "j = second_loop s i (length s - 1)"
  from s have i: "i < length s"
    unfolding i_def by (intro first_loop_less) simp
  then have "i \<le> length s - 1" by simp
  then have j: "i \<le> j \<and> j \<le> length s - 1"
    unfolding j_def by (rule second_loop_bounds)
  from assms s have "b = py_slice s i (j + 1)"
    by (simp add: remove_whitespaces_on_boundaries_def Let_def i_def j_def)
  with i j show ?thesis
    by (simp add: py_slice_def)
qed

subsection \<open>The tokenizer inside delimiters\<close>

text \<open>
  Claim C2, as stated: while the stack is non-empty a position only compares its
  character with the top of the stack, so an inner opening delimiter is never pushed.
  The code does push it: at the \<^verbatim>\<open>[\<close> of \<^verbatim>\<open>([),b\<close>, with \<^verbatim>\<open>)\<close> on the stack, the stack
  becomes \<^verbatim>\<open>)]\<close>, and the whole text comes out as one piece where the scan of the claim
  splits it in two.
\<close>

theorem smart_split_pushes_inner_opener:
  "smart_split_body ''([),b'' CHR '','' common_delimiters 1
       \<lparr>split_i = 0, end_delimiters_stack = '')'', yielded = []\<rparr>
     = \<lparr>split_i = 0, end_delimiters_stack = '')]'', yielded = []\<rparr>
   \<and> smart_split ''([),b'' CHR '','' common_delimiters = [''([),b'']
   \<and> spec_split ''([),b'' CHR '','' common_delimiters = [''([)'', ''b'']"
  by code_simp

text \<open>
  Claim C2, amended: while the stack is non-empty, a character equal to the top of the
  stack pops it; any other character is never taken as the separator (nothing is
  yielded and the piece does not restart), but the closing character of an opening
  delimiter is pushed; a character that opens nothing is ignored.
\<close>

theorem smart_split_body_nonempty_stack:
  assumes "end_delimiters_stack st \<noteq> []"
  shows "smart_split_body expression seperator delimiters loc st =
      (if expression ! loc = last (end_delimiters_stack st)
       then st\<lparr>end_delimiters_stack := butlast (end_delimiters_stack st)\<rparr>
       else (case match_and_return_second (expression ! loc) delimiters of
               Some end_delimiter \<Rightarrow>
                 st\<lparr>end_delimiters_stack := end_delimiters_stack st @ [end_delimiter]\<rparr>
             | None \<Rightarrow> st))
    \<and> yielded (smart_split_body expression seperator delimiters loc st) = yielded st
    \<and> split_i (smart_split_body expression seperator delimiters loc st) = split_i st"
  using assms
  by (simp add: smart_split_body_def otherwise_push_def Let_def split: option.splits)

text \<open>
  The amended claim inside \<^verbatim>\<open>(a,[b)]\<close>, with \<^verbatim>\<open>)\<close> on the stack: the comma at position 2
  is ignored, the \<^verbatim>\<open>[\<close> at position 3 pushes \<^verbatim>\<open>]\<close>.
\<close>

theorem smart_split_body_nonempty_stack_witness:
  "smart_split_body ''(a,[b)]'' CHR '','' common_delimiters 2
       \<lparr>split_i = 0, end_delimiters_stack = '')'', yielded = []\<rparr>
     = \<lparr>split_i = 0, end_delimiters_stack = '')'', yielded = []\<rparr>
   \<and> smart_split_body ''(a,[b)]'' CHR '','' common_delimiters 3
       \<lparr>split_i = 0, end_delimiters_stack = '')'', yielded = []\<rparr>
     = \<lparr>split_i = 0, end_delimiters_stack = '')]'', yielded = []\<rparr>"
proof -
  let ?st = "\<lparr>split_i = 0, end_delimiters_stack = '')'', yielded = []\<rparr>"
  have stack: "end_delimiters_stack ?st \<noteq> []" by simp
  have chars: "''(a,[b)]'' ! 2 = CHR '',''" "''(a,[b)]'' ! 3 = CHR ''[''" by simp_all
  from smart_split_body_nonempty_stack [OF stack, of "''(a,[b)]''" "CHR '',''" common_delimiters 2]
    smart_split_body_nonempty_stack [OF stack, of "''(a,[b)]''" "CHR '',''" common_delimiters 3]
  show ?thesis
    by (simp add: chars common_delimiters_def)
qed

subsection \<open>Parentheses\<close>

text \<open>
  Claim C3, as stated: \<^verbatim>\<open>(a)(b)\<close>, whose first parenthesis does not match its last, is not
  unwrapped, and the error carries the whole \<^verbatim>\<open>(a)(b)\<close>. The code unwraps it to \<^verbatim>\<open>a)(b\<close>,
  which no variant parses, and the error carries \<^verbatim>\<open>a)(b\<close>.
\<close>

theorem unmatched_parentheses_unwrapped:
  "remove_whitespaces_on_boundaries ''(a)(b)'' = Inr ''(a)(b)''
   \<and> parse_expression ''(a)(b)'' = Inl (TemplateSyntaxError (Cant_parse_expression ''a)(b''))
   \<and> parse_expression ''(a)(b)'' \<noteq> Inl (TemplateSyntaxError (Cant_parse_expression ''(a)(b)''))"
  by code_simp

text \<open>
  Claim C3, amended: whenever the trimmed text starts with \<^verbatim>\<open>(\<close> and ends with \<^verbatim>\<open>)\<close>,
  \<^verbatim>\<open>parse_expression\<close> drops the first and the last character and parses what is between
  them, whether or not the two parentheses match each other.
\<close>

theorem parse_expression_unwraps:
  assumes "remove_whitespaces_on_boundaries text = Inr expression"
    and "hd expression = CHR ''(''" and "last expression = CHR '')''"
  shows "parse_expression text = parse_expression (butlast (tl expression))"
proof -
  from assms(1) have "expression \<noteq> []" by (rule remove_whitespaces_nonempty)
  with assms show ?thesis
    by (subst parse_expression.simps) simp
qed

text \<open>The amended claim on \<^verbatim>\<open> (x) \<close>: the result is that of \<^verbatim>\<open>x\<close>, a variable.\<close>

theorem parse_expression_unwraps_witness:
  "parse_expression '' (x) '' = parse_expression ''x''
   \<and> parse_expression '' (x) '' = Inr (VariableExpression ''x'')"
proof -
  have trim: "remove_whitespaces_on_boundaries '' (x) '' = Inr ''(x)''" by code_simp
  have first: "hd ''(x)'' = CHR ''(''" and final: "last ''(x)'' = CHR '')''" by simp_all
  have interior: "butlast (tl ''(x)'') = ''x''" by simp
  have "parse_expression '' (x) '' = parse_expression ''x''"
    using parse_expression_unwraps [OF trim first final] by (simp only: interior)
  moreover have "parse_expression ''x'' = Inr (VariableExpression ''x'')" by code_simp
  ultimately show ?thesis by simp
qed

subsection \<open>Claims the code does not meet\<close>

text \<open>
  Claim C1: a property expression whose root value contains every key of the path
  evaluates to the value the walk reaches. On \<^verbatim>\<open>{'a': 1}.a\<close> the parser builds the property
  node, the root evaluates to \<^verbatim>\<open>{'a': 1}\<close> and the loop over the key path ends with
  \<^verbatim>\<open>current = 1\<close>, yet \<^verbatim>\<open>eval_initial\<close> returns \<^verbatim>\<open>None\<close>: the method ends without
  returning \<^verbatim>\<open>current\<close>.
\<close>

theorem property_eval_initial_returns_None:
  "parse_expression (''{'' @ [CHR 0x27] @ ''a'' @ [CHR 0x27] @ '': 1}.a'')
     = Inr (PropertyExpression (DictExpression [(''a'', IntExpression 1)]) [''a''])
   \<and> eval_initial 0 None (DictExpression [(''a'', IntExpression 1)]) = Some (Inr (VDict [(''a'', VInt 1)]))
   \<and> key_path_loop (PropertyExpression (DictExpression [(''a'', IntExpression 1)]) [''a''])
        (VDict [(''a'', VInt 1)]) [''a''] = Inr (VInt 1)
   \<and> eval_initial 0 None (PropertyExpression (DictExpression [(''a'', IntExpression 1)]) [''a''])
        = Some (Inr VNone)"
  by code_simp

text \<open>
  Claim C4: when the first dotted segment does not parse, \<^verbatim>\<open>PropertyExpression.try_parse\<close>
  reports no match, so that \<^verbatim>\<open>parse_expression\<close> fails with the one error for the whole
  text. On \<^verbatim>\<open>!.a\<close> the error raised for the segment \<^verbatim>\<open>!\<close> leaves \<^verbatim>\<open>try_parse\<close> and
  \<^verbatim>\<open>parse_expression\<close> instead, and it names \<^verbatim>\<open>!\<close>, not \<^verbatim>\<open>!.a\<close>.
\<close>

theorem property_root_error_escapes:
  "smart_split ''!.a'' CHR ''.'' common_delimiters = [''!'', ''a'']
   \<and> parse_expression ''!'' = Inl (TemplateSyntaxError (Cant_parse_expression ''!''))
   \<and> PropertyExpression_try_parse ''!.a'' = Inl (TemplateSyntaxError (Cant_parse_expression ''!''))
   \<and> parse_expression ''!.a'' = Inl (TemplateSyntaxError (Cant_parse_expression ''!''))"
  by code_simp

text \<open>
  Claim C6: \<^verbatim>\<open>StringExpression.try_parse\<close> accepts a literal in double quotes. The
  double-quoted \<^verbatim>\<open>"abc"\<close> (\<open>CHR 0x22\<close> at both ends) is no match and no other variant
  parses it, while the single-quoted \<^verbatim>\<open>'abc'\<close> is a string.
\<close>

theorem double_quoted_not_a_string:
  "StringExpression_try_parse (CHR 0x22 # ''abc'' @ [CHR 0x22]) = None
   \<and> parse_expression (CHR 0x22 # ''abc'' @ [CHR 0x22])
       = Inl (TemplateSyntaxError (Cant_parse_expression (CHR 0x22 # ''abc'' @ [CHR 0x22])))
   \<and> StringExpression_try_parse (CHR 0x27 # ''abc'' @ [CHR 0x27]) = Some (StringExpression ''abc'')"
  by code_simp

text \<open>
  Claim C7: \<^verbatim>\<open>LengthFunction.eval_js\<close> returns \<^verbatim>\<open>(<arg-js>).length\<close> and
  \<^verbatim>\<open>LengthFunction.eval_initial\<close> the length of the argument's value. On the array
  \<^verbatim>\<open>[1, 2, 3]\<close> the initial value is 3 and the argument's JavaScript is \<^verbatim>\<open>[1,2,3]\<close>, but
  \<^verbatim>\<open>eval_js\<close> raises \<^verbatim>\<open>TypeError\<close>: it passes \<^verbatim>\<open>delimiter\<close> to a method that takes the
  context only.
\<close>

theorem length_eval_js_raises:
  "LengthFunction_eval_initial 0 None
       [ArrayExpression [IntExpression 1, IntExpression 2, IntExpression 3]] = Some (Inr (VInt 3))
   \<and> eval_js_and_hooks None (ArrayExpression [IntExpression 1, IntExpression 2, IntExpression 3])
       = Inr (''[1,2,3]'', [])
   \<and> LengthFunction_eval_js None '',''
       [ArrayExpression [IntExpression 1, IntExpression 2, IntExpression 3]] = Inl TypeError"
proof (intro conjI)
  have digits: "str_int 1 = ''1''" "str_int 2 = ''2''" "str_int 3 = ''3''"
    by code_simp+
  show "LengthFunction_eval_initial 0 None
      [ArrayExpression [IntExpression 1, IntExpression 2, IntExpression 3]] = Some (Inr (VInt 3))"
    by code_simp
  show "eval_js_and_hooks None (ArrayExpression [IntExpression 1, IntExpression 2, IntExpression 3])
      = Inr (''[1,2,3]'', [])"
    by (simp add: digits)
  show "LengthFunction_eval_js None '',''
      [ArrayExpression [IntExpression 1, IntExpression 2, IntExpression 3]] = Inl TypeError"
    by (simp add: LengthFunction_eval_js_def LengthFunction_validate_args_def
        call_eval_js_and_hooks_def)
qed

subsection \<open>The empty string\<close>

text \<open>
  Claim C10: \<^verbatim>\<open>parse_expression\<close> is not total on the empty string. On \<^verbatim>\<open>''\<close>, and on
  \<^verbatim>\<open>[]\<close>, whose empty interior \<^verbatim>\<open>ArrayExpression.try_parse\<close> parses recursively, the
  unbound loop variable of \<^verbatim>\<open>remove_whitespaces_on_boundaries\<close> raises
  \<^verbatim>\<open>UnboundLocalError\<close>, which is not the \<^verbatim>\<open>TemplateSyntaxError\<close> of unparseable input.
\<close>

theorem parse_expression_empty_unbound:
  "remove_whitespaces_on_boundaries '''' = Inl UnboundLocalError
   \<and> parse_expression '''' = Inl UnboundLocalError
   \<and> ArrayExpression_try_parse ''[]'' = Inl UnboundLocalError
   \<and> parse_expression ''[]'' = Inl UnboundLocalError"
  by code_simp

end
